theory Spec2Isabelle
  imports Main
begin

section \<open>The script engine as the worklet code sees it\<close>

text \<open>
  The header \<^verbatim>\<open>cpp/WKTJsiWorklet.h\<close> is written against the JSI interface: a runtime
  owns a heap of objects, a value is a primitive or a handle to an object, and the code
  reads and writes properties, creates objects, evaluates script text and calls functions.
  Only that interface is modelled. Properties are data properties of the object itself
  (no prototype chain, getters, setters or frozen objects), so reading and writing a
  property cannot raise. The payload of a number is not used by the code; only its kind is.
  Log output (\<^verbatim>\<open>WKT_LOG\<close>) is not part of the state.
\<close>

datatype handle = GlobalObject | Obj nat

datatype jsvalue =
    JUndefined
  | JNull
  | JBool bool
  | JNumber int
  | JSymbol nat
  | JBigInt int
  | JString string
  | JObject handle

text \<open>
  A function object is either a function of the script itself or the one host function this
  code creates (the no-op worklet).
\<close>

datatype objkind = PlainObject | ScriptFunction | NoopHostFunction

record jsobject =
  props :: "string \<rightharpoonup> jsvalue"
  kind :: objkind

record runtime =
  heap :: "handle \<Rightarrow> jsobject"
  next_handle :: nat
  runtime_id :: nat

text \<open>
  What C++ can throw here: a \<^verbatim>\<open>jsi::JSError\<close> with its message, or any other exception
  (the ones only \<^verbatim>\<open>catch (...)\<close> catches).
\<close>

datatype jsexn = JSError string | OtherException string

type_synonym 'a outcome = "jsexn + 'a"

definition isObject :: "jsvalue \<Rightarrow> bool" where
  "isObject v = (case v of JObject _ \<Rightarrow> True | _ \<Rightarrow> False)"

definition isString :: "jsvalue \<Rightarrow> bool" where
  "isString v = (case v of JString _ \<Rightarrow> True | _ \<Rightarrow> False)"

definition isUndefined :: "jsvalue \<Rightarrow> bool" where
  "isUndefined v = (v = JUndefined)"

definition isNull :: "jsvalue \<Rightarrow> bool" where
  "isNull v = (v = JNull)"

definition isFunction :: "runtime \<Rightarrow> handle \<Rightarrow> bool" where
  "isFunction rt h = (kind (heap rt h) \<noteq> PlainObject)"

definition getProperty :: "runtime \<Rightarrow> handle \<Rightarrow> string \<Rightarrow> jsvalue" where
  "getProperty rt h n = (case props (heap rt h) n of None \<Rightarrow> JUndefined | Some v \<Rightarrow> v)"

definition setProperty :: "runtime \<Rightarrow> handle \<Rightarrow> string \<Rightarrow> jsvalue \<Rightarrow> runtime" where
  "setProperty rt h n v =
     rt\<lparr>heap := (heap rt)(h := (heap rt h)\<lparr>props := (props (heap rt h))(n \<mapsto> v)\<rparr>)\<rparr>"

text \<open>\<^verbatim>\<open>jsi::Object(runtime)\<close>: a fresh empty object.\<close>

definition new_Object :: "runtime \<Rightarrow> handle \<times> runtime" where
  "new_Object rt =
     (Obj (next_handle rt),
      rt\<lparr>heap := (heap rt)(Obj (next_handle rt) := \<lparr>props = Map.empty, kind = PlainObject\<rparr>),
         next_handle := Suc (next_handle rt)\<rparr>)"

text \<open>
  The engine itself is a parameter of the model: \<open>evaluateJavaScript\<close> takes the text and
  the source location, a function body takes the function's handle, the receiver and the
  arguments. Both may change the heap and both may raise; the state they leave behind
  when they raise is kept.
\<close>

type_synonym evaluator = "string \<Rightarrow> string \<Rightarrow> runtime \<Rightarrow> jsvalue outcome \<times> runtime"

type_synonym behaviour =
  "handle \<Rightarrow> jsvalue \<Rightarrow> jsvalue list \<Rightarrow> runtime \<Rightarrow> jsvalue outcome \<times> runtime"

text \<open>
  \<^verbatim>\<open>Function::callWithThis\<close>; \<^verbatim>\<open>Function::call\<close> is the same with \<open>JUndefined\<close> as the
  receiver. The host function \<^verbatim>\<open>noopWorklet\<close> ignores everything and returns undefined.
\<close>

definition callWithThis ::
  "behaviour \<Rightarrow> runtime \<Rightarrow> handle \<Rightarrow> jsvalue \<Rightarrow> jsvalue list \<Rightarrow> jsvalue outcome \<times> runtime" where
  "callWithThis bhv rt f this args =
     (if kind (heap rt f) = NoopHostFunction then (Inr JUndefined, rt)
      else bhv f this args rt)"

section \<open>Property names\<close>

definition PropNameWorkletHash :: string where "PropNameWorkletHash = ''__workletHash''"
definition PropNameWorkletInitData :: string where "PropNameWorkletInitData = ''__initData''"
definition PropNameWorkletInitDataCode :: string where "PropNameWorkletInitDataCode = ''code''"
definition PropNameJsThis :: string where "PropNameJsThis = ''jsThis''"
definition PropNameWorkletInitDataLocation :: string where
  "PropNameWorkletInitDataLocation = ''location''"
definition PropNameWorkletLocation :: string where "PropNameWorkletLocation = ''__location''"
definition PropNameWorkletAsString :: string where "PropNameWorkletAsString = ''asString''"
definition PropNameWorkletClosure :: string where "PropNameWorkletClosure = ''_closure''"
definition PropNameWorkletClosureLegacy :: string where
  "PropNameWorkletClosureLegacy = ''__closure''"
definition PropFunctionName :: string where "PropFunctionName = ''name''"

lemmas prop_names =
  PropNameWorkletHash_def PropNameWorkletInitData_def PropNameWorkletInitDataCode_def
  PropNameJsThis_def PropNameWorkletInitDataLocation_def PropNameWorkletLocation_def
  PropNameWorkletAsString_def PropNameWorkletClosure_def PropNameWorkletClosureLegacy_def
  PropFunctionName_def

section \<open>JsiWorklet: the descriptor\<close>

text \<open>
  The members of \<^verbatim>\<open>class JsiWorklet\<close> that the code reads. The closure wrapper is a value
  of \<^verbatim>\<open>JsiWrapper\<close>, whose header is not part of these sources: its type is the parameter
  \<open>'w\<close>, and \<open>None\<close> is the null pointer.
\<close>

record 'w JsiWorklet =
  isWorklet :: bool
  closureWrapper :: "'w option"
  location :: string
  code :: string
  name :: string
  isRea30Compat :: bool

definition JsiWorklet_init :: "'w JsiWorklet" where
  "JsiWorklet_init =
     \<lparr>isWorklet = False, closureWrapper = None, location = [], code = [],
      name = ''fn'', isRea30Compat = False\<rparr>"

subsection \<open>isDecoratedAsWorklet\<close>



subsection \<open>createWorklet\<close>

text \<open>
  \<^verbatim>\<open>std::isspace\<close> on an unsigned char in the default "C" locale: space, and the five
  control characters tab, line feed, vertical tab, form feed, carriage return.
\<close>

definition isspace :: "char \<Rightarrow> bool" where
  "isspace c =
     (c = CHR 0x20 \<or> c = CHR 0x09 \<or> c = CHR 0x0A \<or> c = CHR 0x0B \<or> c = CHR 0x0C
      \<or> c = CHR 0x0D)"

text \<open>
  The loop \<^verbatim>\<open>for (char c : s) if (!std::isspace(c)) ...\<close> that leaves at the first character
  that is not white space.
\<close>

fun isWhitespaceOnly :: "string \<Rightarrow> bool" where
  "isWhitespaceOnly [] = True"
| "isWhitespaceOnly (c # cs) = (if \<not> isspace c then False else isWhitespaceOnly cs)"

text \<open>Step 3 of \<^verbatim>\<open>createWorklet\<close> in \<^verbatim>\<open>cpp/WKTJsiWorklet.h\<close>.\<close>

definition isCodeEmpty :: "string \<Rightarrow> bool" where
  "isCodeEmpty c =
     (let isCodeEmpty = isWhitespaceOnly c;
          isCodeEmpty = (if \<not> isCodeEmpty \<and> length c \<le> 3 then True else isCodeEmpty)
      in isCodeEmpty)"

definition emptyCodeError :: string where
  "emptyCodeError =
     ''Failed to create Worklet, the provided code is empty. Tips:'' @ [CHR 0x0A] @
     ''* Is the babel plugin correctly installed?'' @ [CHR 0x0A] @
     ''* If you are using react-native-reanimated, make sure the '' @
     ''react-native-reanimated plugin does not override the '' @
     ''react-native-worklets-core/plugin.'' @ [CHR 0x0A] @
     ''* Make sure the JS Worklet contains a '' @ [CHR 0x22] @
     PropNameWorkletInitDataCode @
     [CHR 0x22] @ '' property with the function'' @ [CHR 0x27] @ ''s code.''"

definition invalidFunctionError :: string where
  "invalidFunctionError = ''Worklets must be initialized from a valid function.''"

text \<open>
  \<^verbatim>\<open>createWorklet(runtime, func)\<close>. The function works on the members of \<open>this\<close> and leaves
  by \<^verbatim>\<open>return\<close> (the descriptor as it is then, \<open>Inr\<close>) or by \<^verbatim>\<open>throw\<close> (\<open>Inl\<close>).
  \<open>rest\<close> is the code after the choice of the encoding, steps 3 to 5.

  Modelled from the spec: \<^verbatim>\<open>JsiWrapper::wrap\<close> (header \<^verbatim>\<open>WKTJsiWrapper.h\<close>, not among the
  sources) is the parameter \<open>wrap\<close>. By the specification it copies the value out of the
  runtime into a snapshot and does not raise.
\<close>

definition createWorklet_func ::
  "(runtime \<Rightarrow> jsvalue \<Rightarrow> 'w) \<Rightarrow> runtime \<Rightarrow> handle \<Rightarrow> 'w JsiWorklet \<Rightarrow> 'w JsiWorklet outcome" where
  "createWorklet_func wrap rt func this =
     (let this = this\<lparr>isWorklet := False, isRea30Compat := False, code := [], location := [],
                       closureWrapper := None\<rparr>;
          rest = (\<lambda>this.
            if isCodeEmpty (code this) then Inl (JSError emptyCodeError)
            else
              let closure = getProperty rt func PropNameWorkletClosure;
                  closure = (if isUndefined closure \<or> isNull closure
                             then getProperty rt func PropNameWorkletClosureLegacy else closure);
                  this = (if \<not> isUndefined closure \<and> \<not> isNull closure
                          then this\<lparr>closureWrapper := Some (wrap rt closure)\<rparr>
                          else this\<lparr>closureWrapper := None\<rparr>);
                  this = (case getProperty rt func PropFunctionName of
                            JString n \<Rightarrow> this\<lparr>name := n\<rparr>
                          | _ \<Rightarrow> this\<lparr>name := ''fn''\<rparr>)
              in Inr (this\<lparr>isWorklet := True\<rparr>))
      in
      case getProperty rt func PropNameWorkletInitData of
        JObject initDataObj \<Rightarrow>
          (case getProperty rt initDataObj PropNameWorkletInitDataLocation of
             JString l \<Rightarrow>
               (let this = this\<lparr>location := l\<rparr> in
                case getProperty rt initDataObj PropNameWorkletInitDataCode of
                  JString c \<Rightarrow> rest (this\<lparr>code := c, isRea30Compat := True\<rparr>)
                | _ \<Rightarrow> Inr this)
           | _ \<Rightarrow> Inr this)
      | _ \<Rightarrow>
          (case (getProperty rt func PropNameWorkletAsString,
                 getProperty rt func PropNameWorkletLocation) of
             (JString c, JString l) \<Rightarrow>
               rest (this\<lparr>code := c, location := l, isRea30Compat := False\<rparr>)
           | _ \<Rightarrow> Inr this))"

text \<open>\<^verbatim>\<open>createWorklet(runtime, arg)\<close>, called by the constructor on the initial members.\<close>

definition createWorklet ::
  "(runtime \<Rightarrow> jsvalue \<Rightarrow> 'w) \<Rightarrow> runtime \<Rightarrow> jsvalue \<Rightarrow> 'w JsiWorklet outcome" where
  "createWorklet wrap rt arg =
     (case arg of
        JObject obj \<Rightarrow>
          (if \<not> isFunction rt obj then Inl (JSError invalidFunctionError)
           else createWorklet_func wrap rt obj JsiWorklet_init)
      | _ \<Rightarrow> Inl (JSError invalidFunctionError))"

subsection \<open>The second copy of the header\<close>

text \<open>
  The sources hold a second copy of the same header (stored after
  \<^verbatim>\<open>src/NativeWorklets.ts\<close>). Its \<^verbatim>\<open>createWorklet\<close> differs in the Modern branch, where a
  location that is not a string becomes \<^verbatim>\<open>"(unknown)"\<close>, and in the text of the error.
  The definitions taken from that copy carry the suffix \<open>2\<close>.
\<close>

definition emptyCodeError2 :: string where
  "emptyCodeError2 =
     ''Failed to create Worklet, provided code is empty.'' @ [CHR 0x0A] @
     ''* Is the babel plugin installed?'' @ [CHR 0x0A] @
     ''* Did react-native-reanimated override the plugin?'' @ [CHR 0x0A] @
     ''* initData.code must contain the actual worklet function.''"

definition isEmpty2 :: "string \<Rightarrow> bool" where
  "isEmpty2 c = (length c \<le> 3 \<or> isWhitespaceOnly c)"

definition createWorklet_func2 ::
  "(runtime \<Rightarrow> jsvalue \<Rightarrow> 'w) \<Rightarrow> runtime \<Rightarrow> handle \<Rightarrow> 'w JsiWorklet \<Rightarrow> 'w JsiWorklet outcome" where
  "createWorklet_func2 wrap rt func this =
     (let this = this\<lparr>isWorklet := False, isRea30Compat := False, code := [], location := [],
                       closureWrapper := None\<rparr>;
          rest = (\<lambda>this.
            if isEmpty2 (code this) then Inl (JSError emptyCodeError2)
            else
              let closure = getProperty rt func PropNameWorkletClosure;
                  closure = (if isUndefined closure \<or> isNull closure
                             then getProperty rt func PropNameWorkletClosureLegacy else closure);
                  this = (if \<not> isUndefined closure \<and> \<not> isNull closure
                          then this\<lparr>closureWrapper := Some (wrap rt closure)\<rparr>
                          else this);
                  this = (case getProperty rt func PropFunctionName of
                            JString n \<Rightarrow> this\<lparr>name := n\<rparr>
                          | _ \<Rightarrow> this\<lparr>name := ''fn''\<rparr>)
              in Inr (this\<lparr>isWorklet := True\<rparr>))
      in
      case getProperty rt func PropNameWorkletInitData of
        JObject initDataObj \<Rightarrow>
          (let this = (case getProperty rt initDataObj PropNameWorkletInitDataLocation of
                         JString l \<Rightarrow> this\<lparr>location := l\<rparr>
                       | _ \<Rightarrow> this\<lparr>location := ''(unknown)''\<rparr>)
           in
           case getProperty rt initDataObj PropNameWorkletInitDataCode of
             JString c \<Rightarrow> rest (this\<lparr>code := c, isRea30Compat := True\<rparr>)
           | _ \<Rightarrow> Inr this)
      | _ \<Rightarrow>
          (case (getProperty rt func PropNameWorkletAsString,
                 getProperty rt func PropNameWorkletLocation) of
             (JString c, JString l) \<Rightarrow>
               rest (this\<lparr>code := c, location := l, isRea30Compat := False\<rparr>)
           | _ \<Rightarrow> Inr this))"

definition createWorklet2 ::
  "(runtime \<Rightarrow> jsvalue \<Rightarrow> 'w) \<Rightarrow> runtime \<Rightarrow> jsvalue \<Rightarrow> 'w JsiWorklet outcome" where
  "createWorklet2 wrap rt arg =
     (case arg of
        JObject obj \<Rightarrow>
          (if \<not> isFunction rt obj then Inl (JSError invalidFunctionError)
           else createWorklet_func2 wrap rt obj JsiWorklet_init)
      | _ \<Rightarrow> Inl (JSError invalidFunctionError))"

subsection \<open>createWorkletJsFunction\<close>

text \<open>
  \<^verbatim>\<open>evaluteJavascriptInWorkletRuntime\<close>: text that is blank or at most three characters long
  is not evaluated; everything \<^verbatim>\<open>evaluateJavaScript\<close> throws is caught.
\<close>

definition evaluteJavascriptInWorkletRuntime ::
  "evaluator \<Rightarrow> 'w JsiWorklet \<Rightarrow> runtime \<Rightarrow> string \<Rightarrow> jsvalue outcome \<times> runtime" where
  "evaluteJavascriptInWorkletRuntime ev this rt c =
     (let isEmpty = isWhitespaceOnly c in
      if isEmpty \<or> length c \<le> 3 then (Inr JUndefined, rt)
      else
        let wrappedCode = ''('' @ c @ ([CHR 0x0A] @ '')'') in
        case ev wrappedCode (location this) rt of
          (Inr v, rt') \<Rightarrow> (Inr v, rt')
        | (Inl (JSError m), rt') \<Rightarrow> (Inr JUndefined, rt')
        | (Inl (OtherException m), rt') \<Rightarrow> (Inr JUndefined, rt'))"

text \<open>
  The lambda \<^verbatim>\<open>makeNoop\<close>: \<^verbatim>\<open>Function::createFromHostFunction\<close> allocates a function object
  whose body is the host function that returns undefined.
\<close>

definition makeNoop :: "runtime \<Rightarrow> handle \<times> runtime" where
  "makeNoop rt =
     (Obj (next_handle rt),
      rt\<lparr>heap := (heap rt)(Obj (next_handle rt) :=
                                \<lparr>props = Map.empty, kind = NoopHostFunction\<rparr>),
         next_handle := Suc (next_handle rt)\<rparr>)"

text \<open>
  \<^verbatim>\<open>createWorkletJsFunction\<close>: its \<^verbatim>\<open>try\<close> has a handler for \<^verbatim>\<open>jsi::JSError\<close> only, so any
  other exception of the evaluation step would leave the function.
\<close>

definition createWorkletJsFunction ::
  "evaluator \<Rightarrow> 'w JsiWorklet \<Rightarrow> runtime \<Rightarrow> handle outcome \<times> runtime" where
  "createWorkletJsFunction ev this rt =
     (case evaluteJavascriptInWorkletRuntime ev this rt (code this) of
        (Inl (JSError m), rt') \<Rightarrow> (let (f, rt'') = makeNoop rt' in (Inr f, rt''))
      | (Inl (OtherException m), rt') \<Rightarrow> (Inl (OtherException m), rt')
      | (Inr evaluatedFunction, rt') \<Rightarrow>
          (case evaluatedFunction of
             JObject obj \<Rightarrow>
               (if \<not> isFunction rt' obj then (let (f, rt'') = makeNoop rt' in (Inr f, rt''))
                else (Inr obj, rt'))
           | _ \<Rightarrow> (let (f, rt'') = makeNoop rt' in (Inr f, rt''))))"

subsection \<open>JsThisWrapper\<close>

text \<open>
  The constructor saves the global property \<^verbatim>\<open>jsThis\<close> and installs the new object; the
  destructor writes the saved value back. The destructor runs when the scope is left,
  by \<^verbatim>\<open>return\<close> or by an exception.
\<close>

definition JsThisWrapper_ctor :: "runtime \<Rightarrow> handle \<Rightarrow> jsvalue \<times> runtime" where
  "JsThisWrapper_ctor rt thisValue =
     (let oldThis = getProperty rt GlobalObject PropNameJsThis in
      (oldThis, setProperty rt GlobalObject PropNameJsThis (JObject thisValue)))"

definition JsThisWrapper_dtor :: "jsvalue \<Rightarrow> runtime \<Rightarrow> runtime" where
  "JsThisWrapper_dtor oldThis rt = setProperty rt GlobalObject PropNameJsThis oldThis"

subsection \<open>JsiWorklet::call\<close>

text \<open>
  Modelled from the spec: \<^verbatim>\<open>JsiWrapper::unwrap\<close> (header \<^verbatim>\<open>WKTJsiWrapper.h\<close>, not among the
  sources) is the parameter \<open>unwrap\<close>. By the specification it builds the value in the
  target environment, allocating there, and does not raise.
\<close>

type_synonym 'w unwrapper = "'w \<Rightarrow> runtime \<Rightarrow> jsvalue \<times> runtime"

definition JsiWorklet_call ::
  "'w unwrapper \<Rightarrow> behaviour \<Rightarrow> 'w JsiWorklet \<Rightarrow> handle \<Rightarrow> runtime \<Rightarrow> jsvalue \<Rightarrow> jsvalue list
     \<Rightarrow> jsvalue outcome \<times> runtime" where
  "JsiWorklet_call unwrap bhv this workletFunction rt thisValue arguments =
     (let (unwrappedClosure, rt) =
            (case closureWrapper this of
               Some w \<Rightarrow> unwrap w rt
             | None \<Rightarrow> (JUndefined, rt))
      in
      if isRea30Compat this then
        (let (resolvedThisValue, rt) =
               (case thisValue of
                  JObject obj \<Rightarrow> (obj, rt)
                | _ \<Rightarrow> new_Object rt);
             rt = (if \<not> isUndefined unwrappedClosure \<and> \<not> isNull unwrappedClosure
                   then setProperty
                          (setProperty rt resolvedThisValue PropNameWorkletClosure
                             unwrappedClosure)
                          resolvedThisValue PropNameWorkletClosureLegacy unwrappedClosure
                   else rt)
         in callWithThis bhv rt workletFunction (JObject resolvedThisValue) arguments)
      else
        (let (jsThis, rt) = new_Object rt;
             rt = (if \<not> isUndefined unwrappedClosure \<and> \<not> isNull unwrappedClosure
                   then setProperty
                          (setProperty rt jsThis PropNameWorkletClosure unwrappedClosure)
                          jsThis PropNameWorkletClosureLegacy unwrappedClosure
                   else rt);
             (oldThis, rt) = JsThisWrapper_ctor rt jsThis;
             (result, rt) =
               (if isObject thisValue
                then callWithThis bhv rt workletFunction thisValue arguments
                else callWithThis bhv rt workletFunction JUndefined arguments)
         in (result, JsThisWrapper_dtor oldThis rt)))"

section \<open>WorkletInvoker\<close>

text \<open>
  \<^verbatim>\<open>JsiWorkletContext::getCurrent\<close> (header \<^verbatim>\<open>WKTJsiWorkletContext.h\<close>, not among the
  sources) is the parameter \<open>getCurrent\<close>; \<open>'c\<close> is the type of a context.
\<close>

record ('w, 'c) WorkletInvoker =
  owningContext :: "'c option"
  worklet :: "'w JsiWorklet"
  workletFunction :: "handle option"

definition WorkletInvoker_call ::
  "(runtime \<Rightarrow> 'c option) \<Rightarrow> evaluator \<Rightarrow> 'w unwrapper \<Rightarrow> behaviour \<Rightarrow> ('w, 'c) WorkletInvoker
     \<Rightarrow> runtime \<Rightarrow> jsvalue \<Rightarrow> jsvalue list
     \<Rightarrow> jsvalue outcome \<times> ('w, 'c) WorkletInvoker \<times> runtime" where
  "WorkletInvoker_call getCurrent ev unwrap bhv self rt thisValue arguments =
     (let invoke = (\<lambda>self f rt.
            case JsiWorklet_call unwrap bhv (worklet self) f rt thisValue arguments of
              (Inr v, rt') \<Rightarrow> (Inr v, self, rt')
            | (Inl (JSError m), rt') \<Rightarrow> (Inr JUndefined, self, rt')
            | (Inl (OtherException m), rt') \<Rightarrow> (Inr JUndefined, self, rt'))
      in
      case workletFunction self of
        None \<Rightarrow>
          (case createWorkletJsFunction ev (worklet self) rt of
             (Inl e, rt') \<Rightarrow> (Inl e, self, rt')
           | (Inr f, rt') \<Rightarrow>
               invoke (self\<lparr>workletFunction := Some f, owningContext := getCurrent rt'\<rparr>) f rt')
      | Some f \<Rightarrow> invoke self f rt)"

subsection \<open>The invoker of the second copy of the header\<close>

text \<open>
  Modelled from the spec: \<^verbatim>\<open>RuntimeAwareCache\<close> (header \<^verbatim>\<open>WKTRuntimeAwareCache.h\<close>, not
  among the sources) is a cache with one slot for each environment, keyed by the identity
  of the environment; \<^verbatim>\<open>get(runtime)\<close> is the slot of that runtime, empty until it is
  assigned. The \<^verbatim>\<open>call\<close> of this copy has no \<^verbatim>\<open>try\<close>.
\<close>

record 'w WorkletInvoker2 =
  workletFunction2 :: "nat \<Rightarrow> handle option"
  worklet2 :: "'w JsiWorklet"

definition WorkletInvoker_call2 ::
  "evaluator \<Rightarrow> 'w unwrapper \<Rightarrow> behaviour \<Rightarrow> 'w WorkletInvoker2
     \<Rightarrow> runtime \<Rightarrow> jsvalue \<Rightarrow> jsvalue list
     \<Rightarrow> jsvalue outcome \<times> 'w WorkletInvoker2 \<times> runtime" where
  "WorkletInvoker_call2 ev unwrap bhv self rt thisValue arguments =
     (let invoke = (\<lambda>self f rt.
            case JsiWorklet_call unwrap bhv (worklet2 self) f rt thisValue arguments of
              (r, rt') \<Rightarrow> (r, self, rt'))
      in
      case workletFunction2 self (runtime_id rt) of
        None \<Rightarrow>
          (case createWorkletJsFunction ev (worklet2 self) rt of
             (Inl e, rt') \<Rightarrow> (Inl e, self, rt')
           | (Inr f, rt') \<Rightarrow>
               invoke (self\<lparr>workletFunction2 := (workletFunction2 self)(runtime_id rt := Some f)\<rparr>)
                 f rt')
      | Some f \<Rightarrow> invoke self f rt)"

section \<open>Notions of the specification and examples\<close>

text \<open>
  The specification speaks of the source text after trimming white space: the text without
  its leading and trailing white space.
\<close>

definition trim :: "string \<Rightarrow> string" where
  "trim s = rev (dropWhile isspace (rev (dropWhile isspace s)))"

text \<open>
  A captured function is well formed in the Modern encoding when it carries an init-data
  object with string fields \<^verbatim>\<open>location\<close> and \<^verbatim>\<open>code\<close>; in the Legacy encoding when it has no
  init-data object and carries the stringified source and the location, both strings.
\<close>

definition wellFormedModern :: "runtime \<Rightarrow> handle \<Rightarrow> string \<Rightarrow> string \<Rightarrow> bool" where
  "wellFormedModern rt f l c =
     (case getProperty rt f PropNameWorkletInitData of
        JObject i \<Rightarrow> getProperty rt i PropNameWorkletInitDataLocation = JString l
                     \<and> getProperty rt i PropNameWorkletInitDataCode = JString c
      | _ \<Rightarrow> False)"

definition wellFormedLegacy :: "runtime \<Rightarrow> handle \<Rightarrow> string \<Rightarrow> string \<Rightarrow> bool" where
  "wellFormedLegacy rt f l c =
     (\<not> isObject (getProperty rt f PropNameWorkletInitData)
      \<and> getProperty rt f PropNameWorkletAsString = JString c
      \<and> getProperty rt f PropNameWorkletLocation = JString l)"


text \<open>Steps 4 and 5 of \<^verbatim>\<open>createWorklet\<close> as values: the closure wrapper and the name.\<close>

definition closureOf :: "(runtime \<Rightarrow> jsvalue \<Rightarrow> 'w) \<Rightarrow> runtime \<Rightarrow> handle \<Rightarrow> 'w option" where
  "closureOf wrap rt f =
     (let closure = getProperty rt f PropNameWorkletClosure;
          closure = (if isUndefined closure \<or> isNull closure
                     then getProperty rt f PropNameWorkletClosureLegacy else closure)
      in if \<not> isUndefined closure \<and> \<not> isNull closure then Some (wrap rt closure) else None)"

definition nameOf :: "runtime \<Rightarrow> handle \<Rightarrow> string" where
  "nameOf rt f = (case getProperty rt f PropFunctionName of JString n \<Rightarrow> n | _ \<Rightarrow> ''fn'')"

text \<open>
  A small runtime for concrete runs: \<open>Obj 0\<close> is a script function with the given
  properties, \<open>Obj 1\<close> a plain object with the given properties, every other object is empty.
\<close>

definition emptyObject :: jsobject where
  "emptyObject = \<lparr>props = Map.empty, kind = PlainObject\<rparr>"

definition exampleRuntime :: "(string \<times> jsvalue) list \<Rightarrow> (string \<times> jsvalue) list \<Rightarrow> runtime" where
  "exampleRuntime fprops iprops =
     \<lparr>heap = (\<lambda>_. emptyObject)
               (Obj 0 := \<lparr>props = map_of fprops, kind = ScriptFunction\<rparr>,
                Obj 1 := \<lparr>props = map_of iprops, kind = PlainObject\<rparr>),
      next_handle = 2, runtime_id = 0\<rparr>"

lemmas example_eval =
  exampleRuntime_def emptyObject_def getProperty_def isFunction_def prop_names
  isObject_def isString_def isUndefined_def isNull_def



text \<open>
  Descriptors and function bodies for concrete runs. The closure wrapper of the examples is
  the closure value itself, unwrapped without a change of the runtime. The bodies are
  \<^verbatim>\<open>function(){ return this[n]; }\<close>, \<^verbatim>\<open>function(){ return jsThis[n]; }\<close>,
  \<^verbatim>\<open>function(){ throw new Error(m); }\<close> and \<^verbatim>\<open>function(){ this[n] = v; }\<close>.
\<close>

definition exampleWorklet :: "string \<Rightarrow> bool \<Rightarrow> jsvalue option \<Rightarrow> jsvalue JsiWorklet" where
  "exampleWorklet c modern cl =
     \<lparr>isWorklet = True, closureWrapper = cl, location = ''a.js'', code = c, name = ''fn'',
      isRea30Compat = modern\<rparr>"

definition unwrapValue :: "jsvalue unwrapper" where
  "unwrapValue w rt = (w, rt)"

definition readThis :: "string \<Rightarrow> behaviour" where
  "readThis n f this args rt =
     (case this of
        JObject obj \<Rightarrow> (Inr (getProperty rt obj n), rt)
      | _ \<Rightarrow> (Inl (JSError ''TypeError''), rt))"

definition readJsThis :: "string \<Rightarrow> behaviour" where
  "readJsThis n f this args rt =
     (case getProperty rt GlobalObject PropNameJsThis of
        JObject obj \<Rightarrow> (Inr (getProperty rt obj n), rt)
      | _ \<Rightarrow> (Inl (JSError ''TypeError''), rt))"

definition throwError :: "string \<Rightarrow> behaviour" where
  "throwError m f this args rt = (Inl (JSError m), rt)"


text \<open>An evaluator that knows one text, whose value is the script function \<open>Obj 0\<close>.\<close>

definition evalOnly :: "string \<Rightarrow> evaluator" where
  "evalOnly t text loc rt =
     (if text = t then (Inr (JObject (Obj 0)), rt) else (Inl (JSError ''SyntaxError''), rt))"

section \<open>Properties\<close>

subsection \<open>What createWorklet computes\<close>

lemma isWhitespaceOnly_iff: "isWhitespaceOnly s \<longleftrightarrow> (\<forall>c\<in>set s. isspace c)"
  by (induction s) auto

lemma trim_empty_iff: "trim s = [] \<longleftrightarrow> isWhitespaceOnly s"
proof
  assume "trim s = []"
  then have a: "\<forall>x\<in>set (dropWhile isspace s). isspace x"
    by (simp add: trim_def)
  show "isWhitespaceOnly s"
  proof (cases "dropWhile isspace s")
    case Nil
    then show ?thesis by (simp add: isWhitespaceOnly_iff)
  next
    case (Cons x xs)
    then have "\<not> isspace x" using hd_dropWhile[of isspace s] by simp
    with a Cons show ?thesis by simp
  qed
next
  assume "isWhitespaceOnly s"
  then show "trim s = []"
    by (auto simp: trim_def isWhitespaceOnly_iff dest: set_dropWhileD)
qed

lemma isCodeEmpty_iff: "isCodeEmpty c \<longleftrightarrow> isWhitespaceOnly c \<or> length c \<le> 3"
  by (auto simp: isCodeEmpty_def Let_def)

lemma rest_cases:
  "(case getProperty rt f PropFunctionName of JString n \<Rightarrow> (this::'w JsiWorklet)\<lparr>name := n\<rparr> | _ \<Rightarrow> this\<lparr>name := ''fn''\<rparr>)
    = this\<lparr>name := (case getProperty rt f PropFunctionName of JString n \<Rightarrow> n | _ \<Rightarrow> ''fn'')\<rparr>"
  by (simp split: jsvalue.splits)

lemma wellFormedModernE:
  assumes "wellFormedModern rt f l c"
  obtains i where "getProperty rt f PropNameWorkletInitData = JObject i"
    and "getProperty rt i PropNameWorkletInitDataLocation = JString l"
    and "getProperty rt i PropNameWorkletInitDataCode = JString c"
  using assms unfolding wellFormedModern_def
  by (cases "getProperty rt f PropNameWorkletInitData") simp_all

lemma createWorklet_func_modern:
  assumes "wellFormedModern rt f l c"
  shows "createWorklet_func wrap rt f this =
    (if isWhitespaceOnly c \<or> length c \<le> 3 then Inl (JSError emptyCodeError)
     else Inr (this\<lparr>isWorklet := True, isRea30Compat := True, code := c, location := l,
        closureWrapper := closureOf wrap rt f, name := nameOf rt f\<rparr>))"
proof -
  from assms obtain i where i: "getProperty rt f PropNameWorkletInitData = JObject i"
    "getProperty rt i PropNameWorkletInitDataLocation = JString l"
    "getProperty rt i PropNameWorkletInitDataCode = JString c"
    by (rule wellFormedModernE)
  show ?thesis
    by (simp add: createWorklet_func_def i isCodeEmpty_iff Let_def rest_cases closureOf_def nameOf_def)
qed

lemma isEmpty2_iff: "isEmpty2 c \<longleftrightarrow> isWhitespaceOnly c \<or> length c \<le> 3"
  by (auto simp: isEmpty2_def)

lemma wellFormedLegacyE:
  assumes "wellFormedLegacy rt f l c"
  obtains "\<not> isObject (getProperty rt f PropNameWorkletInitData)"
    and "getProperty rt f PropNameWorkletAsString = JString c"
    and "getProperty rt f PropNameWorkletLocation = JString l"
  using assms unfolding wellFormedLegacy_def by simp

lemma createWorklet_func_legacy:
  assumes "wellFormedLegacy rt f l c"
  shows "createWorklet_func wrap rt f this =
    (if isWhitespaceOnly c \<or> length c \<le> 3 then Inl (JSError emptyCodeError)
     else Inr (this\<lparr>isWorklet := True, isRea30Compat := False, code := c, location := l,
        closureWrapper := closureOf wrap rt f, name := nameOf rt f\<rparr>))"
proof -
  from assms have l: "\<not> isObject (getProperty rt f PropNameWorkletInitData)"
    "getProperty rt f PropNameWorkletAsString = JString c"
    "getProperty rt f PropNameWorkletLocation = JString l"
    by (auto elim: wellFormedLegacyE)
  show ?thesis
  proof (cases "getProperty rt f PropNameWorkletInitData")
    case (JObject x)
    with l(1) show ?thesis by (simp add: isObject_def)
  qed (simp_all add: createWorklet_func_def l(2,3) isCodeEmpty_iff Let_def rest_cases
        closureOf_def nameOf_def)
qed

lemma location_cases2:
  "(case v of JString l \<Rightarrow> (this::'w JsiWorklet)\<lparr>location := l\<rparr> | _ \<Rightarrow> this\<lparr>location := ''(unknown)''\<rparr>)
    = this\<lparr>location := (case v of JString l \<Rightarrow> l | _ \<Rightarrow> ''(unknown)'')\<rparr>"
  by (simp split: jsvalue.splits)

lemma createWorklet_func2_modern:
  assumes "getProperty rt f PropNameWorkletInitData = JObject i"
    and "getProperty rt i PropNameWorkletInitDataCode = JString c"
  shows "createWorklet_func2 wrap rt f this =
    (if isWhitespaceOnly c \<or> length c \<le> 3 then Inl (JSError emptyCodeError2)
     else Inr (this\<lparr>isWorklet := True, isRea30Compat := True, code := c,
        location := (case getProperty rt i PropNameWorkletInitDataLocation of
                       JString l \<Rightarrow> l | _ \<Rightarrow> ''(unknown)''),
        closureWrapper := closureOf wrap rt f, name := nameOf rt f\<rparr>))"
  by (simp add: createWorklet_func2_def assms isEmpty2_iff Let_def rest_cases closureOf_def
      nameOf_def location_cases2)

lemma createWorklet_func2_legacy:
  assumes "wellFormedLegacy rt f l c"
  shows "createWorklet_func2 wrap rt f this =
    (if isWhitespaceOnly c \<or> length c \<le> 3 then Inl (JSError emptyCodeError2)
     else Inr (this\<lparr>isWorklet := True, isRea30Compat := False, code := c, location := l,
        closureWrapper := closureOf wrap rt f, name := nameOf rt f\<rparr>))"
proof -
  from assms have l: "\<not> isObject (getProperty rt f PropNameWorkletInitData)"
    "getProperty rt f PropNameWorkletAsString = JString c"
    "getProperty rt f PropNameWorkletLocation = JString l"
    by (auto elim: wellFormedLegacyE)
  show ?thesis
  proof (cases "getProperty rt f PropNameWorkletInitData")
    case (JObject x)
    with l(1) show ?thesis by (simp add: isObject_def)
  qed (simp_all add: createWorklet_func2_def l(2,3) isEmpty2_iff Let_def rest_cases
        closureOf_def nameOf_def)
qed

lemma createWorklet_function:
  "isFunction rt f \<Longrightarrow> createWorklet wrap rt (JObject f) = createWorklet_func wrap rt f JsiWorklet_init"
  "isFunction rt f \<Longrightarrow> createWorklet2 wrap rt (JObject f) = createWorklet_func2 wrap rt f JsiWorklet_init"
  by (simp_all add: createWorklet_def createWorklet2_def)

subsection \<open>Construction from a value that is not a function\<close>

text \<open>
  C9. Constructing a descriptor from a value that is not a function object (a primitive, or
  an object that is not a function) raises the \<^verbatim>\<open>JSError\<close> with the message "Worklets must
  be initialized from a valid function."; no descriptor is produced. Both copies of the
  header have the same check.
\<close>

theorem createWorklet_rejects_non_function:
  assumes "\<forall>h. arg = JObject h \<longrightarrow> \<not> isFunction rt h"
  shows "createWorklet wrap rt arg
           = Inl (JSError ''Worklets must be initialized from a valid function.'')
         \<and> createWorklet2 wrap rt arg
           = Inl (JSError ''Worklets must be initialized from a valid function.'')"
  using assms
  by (cases arg) (simp_all add: createWorklet_def createWorklet2_def invalidFunctionError_def)

theorem createWorklet_rejects_non_function_witness:
  "createWorklet (\<lambda>rt v. v) (exampleRuntime [] []) (JObject (Obj 1))
     = Inl (JSError ''Worklets must be initialized from a valid function.'')
   \<and> createWorklet2 (\<lambda>rt v. v) (exampleRuntime [] []) (JObject (Obj 1))
     = Inl (JSError ''Worklets must be initialized from a valid function.'')"
  using createWorklet_rejects_non_function
          [of "JObject (Obj 1)" "exampleRuntime [] []" "\<lambda>rt v. v"]
  by (simp add: example_eval)

subsection \<open>The predicate isDecoratedAsWorklet\<close>



subsection \<open>Validation of the code text\<close>

text \<open>
  C2 (amended). For a function whose metadata is complete in one of the two encodings, with
  code text \<open>c\<close>, construction raises if and only if \<open>c\<close> is empty after trimming white
  space or the length of \<open>c\<close> itself, untrimmed, is at most 3; the error is then the
  validation error. The code does not trim before it compares the length. Both copies of
  the header decide the same way and differ in the text of the message.
\<close>

theorem createWorklet_validation:
  assumes "isFunction rt f"
    and "wellFormedModern rt f l c \<or> wellFormedLegacy rt f l c"
  shows "((\<exists>e. createWorklet wrap rt (JObject f) = Inl e) \<longleftrightarrow> trim c = [] \<or> length c \<le> 3)
       \<and> (trim c = [] \<or> length c \<le> 3
            \<longrightarrow> createWorklet wrap rt (JObject f) = Inl (JSError emptyCodeError))
       \<and> ((\<exists>e. createWorklet2 wrap rt (JObject f) = Inl e) \<longleftrightarrow> trim c = [] \<or> length c \<le> 3)
       \<and> (trim c = [] \<or> length c \<le> 3
            \<longrightarrow> createWorklet2 wrap rt (JObject f) = Inl (JSError emptyCodeError2))"
proof -
  from assms(2) show ?thesis
  proof
    assume m: "wellFormedModern rt f l c"
    then obtain i where "getProperty rt f PropNameWorkletInitData = JObject i"
      "getProperty rt i PropNameWorkletInitDataCode = JString c"
      by (rule wellFormedModernE)
    then show ?thesis
      using assms(1) createWorklet_func_modern [OF m, of wrap JsiWorklet_init]
        createWorklet_func2_modern [of rt f i c wrap JsiWorklet_init]
      by (simp add: createWorklet_function trim_empty_iff)
  next
    assume "wellFormedLegacy rt f l c"
    then show ?thesis
      using assms(1) createWorklet_func_legacy [of rt f l c wrap JsiWorklet_init]
        createWorklet_func2_legacy [of rt f l c wrap JsiWorklet_init]
      by (simp add: createWorklet_function trim_empty_iff)
  qed
qed

theorem createWorklet_validation_witness:
  "createWorklet (\<lambda>rt v. v)
     (exampleRuntime [(''__initData'', JObject (Obj 1))]
        [(''location'', JString ''a.js''), (''code'', JString ''() '')])
     (JObject (Obj 0)) = Inl (JSError emptyCodeError)
   \<and> createWorklet2 (\<lambda>rt v. v)
     (exampleRuntime [(''__initData'', JObject (Obj 1))]
        [(''location'', JString ''a.js''), (''code'', JString ''() '')])
     (JObject (Obj 0)) = Inl (JSError emptyCodeError2)"
  using createWorklet_validation
          [of "exampleRuntime [(''__initData'', JObject (Obj 1))]
                 [(''location'', JString ''a.js''), (''code'', JString ''() '')]"
              "Obj 0" "''a.js''" "''() ''" "\<lambda>rt v. v"]
  by (simp add: example_eval wellFormedModern_def)

text \<open>
  C2 as stated fails: the text \<^verbatim>\<open>" () "\<close> has trimmed length 2, yet construction succeeds,
  since the text has a character that is not white space and its own length is 4.
\<close>

theorem createWorklet_trimmed_counterexample:
  "length (trim '' () '') \<le> 3
   \<and> createWorklet (\<lambda>rt v. v)
        (exampleRuntime [(''__initData'', JObject (Obj 1))]
           [(''location'', JString ''a.js''), (''code'', JString '' () '')])
        (JObject (Obj 0))
      = Inr \<lparr>isWorklet = True, closureWrapper = None, location = ''a.js'', code = '' () '',
             name = ''fn'', isRea30Compat = True\<rparr>
   \<and> createWorklet2 (\<lambda>rt v. v)
        (exampleRuntime [(''__initData'', JObject (Obj 1))]
           [(''location'', JString ''a.js''), (''code'', JString '' () '')])
        (JObject (Obj 0))
      = Inr \<lparr>isWorklet = True, closureWrapper = None, location = ''a.js'', code = '' () '',
             name = ''fn'', isRea30Compat = True\<rparr>"
  by (simp add: example_eval trim_def isspace_def createWorklet_def createWorklet2_def
        createWorklet_func_def createWorklet_func2_def JsiWorklet_init_def isCodeEmpty_def
        isEmpty2_def Let_def)

subsection \<open>The Modern encoding\<close>

lemma createWorklet_func_code_not_string:
  assumes "getProperty rt f PropNameWorkletInitData = JObject i"
    and "\<not> isString (getProperty rt i PropNameWorkletInitDataCode)"
  shows "\<exists>d. createWorklet_func wrap rt f this = Inr d \<and> \<not> isWorklet d"
    and "\<exists>d. createWorklet_func2 wrap rt f this = Inr d \<and> \<not> isWorklet d"
proof -
  show "\<exists>d. createWorklet_func wrap rt f this = Inr d \<and> \<not> isWorklet d"
    using assms
    by (cases "getProperty rt i PropNameWorkletInitDataLocation";
        cases "getProperty rt i PropNameWorkletInitDataCode")
       (simp_all add: createWorklet_func_def isString_def Let_def)
  show "\<exists>d. createWorklet_func2 wrap rt f this = Inr d \<and> \<not> isWorklet d"
    using assms
    by (cases "getProperty rt i PropNameWorkletInitDataCode")
       (simp_all add: createWorklet_func2_def isString_def Let_def location_cases2)
qed

text \<open>
  C4. For a function object whose init-data object has string fields \<^verbatim>\<open>location\<close> and
  \<^verbatim>\<open>code\<close>, with code that passes the validation, construction succeeds and the descriptor
  is a worklet in the Modern encoding with that code and location. When the init-data
  object is present and its \<^verbatim>\<open>code\<close> field is missing or not a string, construction
  returns a descriptor that is not a worklet and raises nothing. Both copies of the header.
\<close>

theorem createWorklet_modern:
  assumes "isFunction rt f"
  shows "(wellFormedModern rt f l c \<and> \<not> isCodeEmpty c \<longrightarrow>
            (\<exists>d. createWorklet wrap rt (JObject f) = Inr d
                  \<and> isWorklet d \<and> isRea30Compat d \<and> code d = c \<and> location d = l)
          \<and> (\<exists>d. createWorklet2 wrap rt (JObject f) = Inr d
                  \<and> isWorklet d \<and> isRea30Compat d \<and> code d = c \<and> location d = l))
       \<and> (getProperty rt f ''__initData'' = JObject i
            \<and> \<not> isString (getProperty rt i ''code'') \<longrightarrow>
            (\<exists>d. createWorklet wrap rt (JObject f) = Inr d \<and> \<not> isWorklet d)
          \<and> (\<exists>d. createWorklet2 wrap rt (JObject f) = Inr d \<and> \<not> isWorklet d))"
proof (intro conjI impI)
  assume a: "wellFormedModern rt f l c \<and> \<not> isCodeEmpty c"
  then obtain j where j: "getProperty rt f PropNameWorkletInitData = JObject j"
      "getProperty rt j PropNameWorkletInitDataLocation = JString l"
      "getProperty rt j PropNameWorkletInitDataCode = JString c"
    by (auto elim: wellFormedModernE)
  from a have v: "\<not> (isWhitespaceOnly c \<or> length c \<le> 3)" by (simp add: isCodeEmpty_iff)
  show "\<exists>d. createWorklet wrap rt (JObject f) = Inr d
            \<and> isWorklet d \<and> isRea30Compat d \<and> code d = c \<and> location d = l"
    using assms a v createWorklet_func_modern [of rt f l c wrap JsiWorklet_init]
    by (simp add: createWorklet_function)
  show "\<exists>d. createWorklet2 wrap rt (JObject f) = Inr d
            \<and> isWorklet d \<and> isRea30Compat d \<and> code d = c \<and> location d = l"
    using assms v j createWorklet_func2_modern [of rt f j c wrap JsiWorklet_init]
    by (simp add: createWorklet_function)
next
  assume b: "getProperty rt f ''__initData'' = JObject i \<and> \<not> isString (getProperty rt i ''code'')"
  then show "\<exists>d. createWorklet wrap rt (JObject f) = Inr d \<and> \<not> isWorklet d"
    using assms createWorklet_func_code_not_string(1) [of rt f i wrap JsiWorklet_init]
    by (simp add: createWorklet_function prop_names)
  from b show "\<exists>d. createWorklet2 wrap rt (JObject f) = Inr d \<and> \<not> isWorklet d"
    using assms createWorklet_func_code_not_string(2) [of rt f i wrap JsiWorklet_init]
    by (simp add: createWorklet_function prop_names)
qed

theorem createWorklet_modern_witness:
  "(\<exists>d. createWorklet (\<lambda>rt v. v)
          (exampleRuntime [(''__initData'', JObject (Obj 1))]
             [(''location'', JString ''a.js''), (''code'', JString ''function(){}'')])
          (JObject (Obj 0)) = Inr d
        \<and> isWorklet d \<and> isRea30Compat d \<and> code d = ''function(){}'' \<and> location d = ''a.js'')
   \<and> (\<exists>d. createWorklet (\<lambda>rt v. v)
          (exampleRuntime [(''__initData'', JObject (Obj 1))]
             [(''location'', JString ''a.js''), (''code'', JNumber 1)])
          (JObject (Obj 0)) = Inr d \<and> \<not> isWorklet d)"
  using createWorklet_modern
          [of "exampleRuntime [(''__initData'', JObject (Obj 1))]
                 [(''location'', JString ''a.js''), (''code'', JString ''function(){}'')]"
              "Obj 0" "''a.js''" "''function(){}''" "\<lambda>rt v. v" "Obj 1"]
        createWorklet_modern
          [of "exampleRuntime [(''__initData'', JObject (Obj 1))]
                 [(''location'', JString ''a.js''), (''code'', JNumber 1)]"
              "Obj 0" "''a.js''" "''function(){}''" "\<lambda>rt v. v" "Obj 1"]
  by (simp add: example_eval wellFormedModern_def isCodeEmpty_def isspace_def)

text \<open>
  The location that is not a string. In the second copy of the header the descriptor is
  built and its location is \<^verbatim>\<open>"(unknown)"\<close>.
\<close>

lemma createWorklet2_location_unknown:
  assumes "isFunction rt f"
    and "getProperty rt f ''__initData'' = JObject i"
    and "\<not> isString (getProperty rt i ''location'')"
    and "getProperty rt i ''code'' = JString c"
    and "\<not> isEmpty2 c"
  shows "\<exists>d. createWorklet2 wrap rt (JObject f) = Inr d \<and> isWorklet d
              \<and> location d = ''(unknown)''"
proof -
  have "(case getProperty rt i ''location'' of JString l \<Rightarrow> l | _ \<Rightarrow> ''(unknown)'') = ''(unknown)''"
    using assms(3) by (cases "getProperty rt i ''location''") (simp_all add: isString_def)
  then show ?thesis
    using assms createWorklet_func2_modern [of rt f i c wrap JsiWorklet_init]
    by (simp add: createWorklet_function prop_names isEmpty2_iff)
qed

text \<open>
  C5. An init-data object with valid string code and no \<^verbatim>\<open>location\<close>: the claim is that
  construction succeeds with the location \<^verbatim>\<open>"(unknown)"\<close>. The second copy of the header
  does so; \<^verbatim>\<open>cpp/WKTJsiWorklet.h\<close> returns early instead, with a descriptor that is not a
  worklet and whose location and code are empty.
\<close>

theorem createWorklet_location_missing:
  "createWorklet (\<lambda>rt v. v)
     (exampleRuntime [(''__initData'', JObject (Obj 1))] [(''code'', JString ''function(){}'')])
     (JObject (Obj 0))
   = Inr \<lparr>isWorklet = False, closureWrapper = None, location = [], code = [],
          name = ''fn'', isRea30Compat = False\<rparr>
   \<and> createWorklet2 (\<lambda>rt v. v)
     (exampleRuntime [(''__initData'', JObject (Obj 1))] [(''code'', JString ''function(){}'')])
     (JObject (Obj 0))
   = Inr \<lparr>isWorklet = True, closureWrapper = None, location = ''(unknown)'',
          code = ''function(){}'', name = ''fn'', isRea30Compat = True\<rparr>"
  by (simp add: example_eval isspace_def createWorklet_def createWorklet2_def
        createWorklet_func_def createWorklet_func2_def JsiWorklet_init_def isCodeEmpty_def
        isEmpty2_def Let_def)

subsection \<open>Materialization\<close>

lemma evalute_never_raises:
  "\<exists>v rt'. evaluteJavascriptInWorkletRuntime ev d rt c = (Inr v, rt')"
proof (cases "isWhitespaceOnly c \<or> length c \<le> 3")
  case True
  then show ?thesis by (auto simp: evaluteJavascriptInWorkletRuntime_def)
next
  case False
  obtain r rt1 where e: "ev (''('' @ c @ ([CHR 0x0A] @ '')'')) (location d) rt = (r, rt1)"
    by (cases "ev (''('' @ c @ ([CHR 0x0A] @ '')'')) (location d) rt") blast
  show ?thesis
  proof (cases r)
    case (Inl x)
    with False e show ?thesis
      by (cases x) (simp_all add: evaluteJavascriptInWorkletRuntime_def)
  next
    case (Inr v)
    with False e show ?thesis by (simp add: evaluteJavascriptInWorkletRuntime_def)
  qed
qed

lemma evalute_valid_code:
  assumes "\<not> isCodeEmpty c"
    and "ev (''('' @ c @ [CHR 0x0A] @ '')'') (location d) rt = (r, rt1)"
  shows "evaluteJavascriptInWorkletRuntime ev d rt c
           = (case r of Inr v \<Rightarrow> Inr v | Inl e \<Rightarrow> Inr JUndefined, rt1)"
proof -
  from assms(1) have v: "\<not> (isWhitespaceOnly c \<or> length c \<le> 3)" by (simp add: isCodeEmpty_iff)
  show ?thesis
  proof (cases r)
    case (Inl x)
    with v assms(2) show ?thesis
      by (cases x) (simp_all add: evaluteJavascriptInWorkletRuntime_def)
  next
    case (Inr v')
    with v assms(2) show ?thesis by (simp add: evaluteJavascriptInWorkletRuntime_def)
  qed
qed

lemma evalute_blank_code:
  "isCodeEmpty c \<Longrightarrow> evaluteJavascriptInWorkletRuntime ev d rt c = (Inr JUndefined, rt)"
  by (auto simp: isCodeEmpty_iff evaluteJavascriptInWorkletRuntime_def)

lemma makeNoop_is_noop:
  "kind (heap (snd (makeNoop s)) (fst (makeNoop s))) = NoopHostFunction"
  by (simp add: makeNoop_def)

lemma createWorkletJsFunction_of_value:
  assumes "evaluteJavascriptInWorkletRuntime ev d rt (code d) = (Inr v, rt1)"
  shows "createWorkletJsFunction ev d rt =
     (if \<exists>h. v = JObject h \<and> isFunction rt1 h
      then (Inr (case v of JObject h \<Rightarrow> h | _ \<Rightarrow> GlobalObject), rt1)
      else (Inr (fst (makeNoop rt1)), snd (makeNoop rt1)))"
  using assms
  by (cases v) (simp_all add: createWorkletJsFunction_def split_beta)

lemma createWorkletJsFunction_never_raises:
  "\<exists>f rt'. createWorkletJsFunction ev d rt = (Inr f, rt') \<and> isFunction rt' f"
proof -
  obtain v rt1 where e: "evaluteJavascriptInWorkletRuntime ev d rt (code d) = (Inr v, rt1)"
    using evalute_never_raises by blast
  show ?thesis
    unfolding createWorkletJsFunction_of_value [OF e]
    by (auto simp: isFunction_def makeNoop_is_noop)
qed

text \<open>
  C3. Materialization never raises and always returns a function. For a descriptor whose
  code passed the validation it evaluates exactly the text \<^verbatim>\<open>"(" + code + "\n)"\<close>, tagged
  with the location: when that yields a function object, this object is the result; when
  the evaluation throws, or yields something that is not an object, or an object that is
  not a function, the result is the no-op host function, which returns undefined for every
  receiver and argument list and leaves the runtime as it is. (For code that is blank or at
  most three characters long, which validation never lets through, nothing is evaluated and
  the result is the no-op function as well.)
\<close>

theorem createWorkletJsFunction_materialize:
  assumes "ev (''('' @ code d @ [CHR 0x0A] @ '')'') (location d) rt = (r, rt1)"
  shows "(\<exists>f rt'. createWorkletJsFunction ev d rt = (Inr f, rt') \<and> isFunction rt' f)
       \<and> (\<not> isCodeEmpty (code d) \<longrightarrow>
            (\<forall>h. r = Inr (JObject h) \<and> isFunction rt1 h
                 \<longrightarrow> createWorkletJsFunction ev d rt = (Inr h, rt1))
          \<and> ((\<forall>h. r = Inr (JObject h) \<longrightarrow> \<not> isFunction rt1 h) \<longrightarrow>
               (\<exists>f rt'. createWorkletJsFunction ev d rt = (Inr f, rt')
                  \<and> (f, rt') = makeNoop rt1
                  \<and> (\<forall>bhv this args.
                        callWithThis bhv rt' f this args = (Inr JUndefined, rt')))))
       \<and> (isCodeEmpty (code d) \<longrightarrow>
            createWorkletJsFunction ev d rt = (Inr (fst (makeNoop rt)), snd (makeNoop rt)))"
proof (intro conjI impI allI)
  show "\<exists>f rt'. createWorkletJsFunction ev d rt = (Inr f, rt') \<and> isFunction rt' f"
    by (rule createWorkletJsFunction_never_raises)
next
  fix h
  assume v: "\<not> isCodeEmpty (code d)" and h: "r = Inr (JObject h) \<and> isFunction rt1 h"
  have "evaluteJavascriptInWorkletRuntime ev d rt (code d) = (Inr (JObject h), rt1)"
    using evalute_valid_code [of "code d" ev d rt r rt1, OF v assms] h by simp
  from createWorkletJsFunction_of_value [OF this] h
  show "createWorkletJsFunction ev d rt = (Inr h, rt1)" by simp
next
  assume v: "\<not> isCodeEmpty (code d)"
    and n: "\<forall>h. r = Inr (JObject h) \<longrightarrow> \<not> isFunction rt1 h"
  define u where "u = (case r of Inr v \<Rightarrow> v | Inl e \<Rightarrow> JUndefined)"
  have e: "evaluteJavascriptInWorkletRuntime ev d rt (code d) = (Inr u, rt1)"
    using evalute_valid_code [of "code d" ev d rt r rt1, OF v assms] by (cases r) (simp_all add: u_def)
  have "\<not> (\<exists>h. u = JObject h \<and> isFunction rt1 h)"
    using n by (cases r) (auto simp: u_def)
  with createWorkletJsFunction_of_value [OF e]
  have c: "createWorkletJsFunction ev d rt = (Inr (fst (makeNoop rt1)), snd (makeNoop rt1))"
    by simp
  show "\<exists>f rt'. createWorkletJsFunction ev d rt = (Inr f, rt') \<and> (f, rt') = makeNoop rt1
          \<and> (\<forall>bhv this args. callWithThis bhv rt' f this args = (Inr JUndefined, rt'))"
    using c by (simp add: callWithThis_def makeNoop_is_noop)
next
  assume "isCodeEmpty (code d)"
  then have "evaluteJavascriptInWorkletRuntime ev d rt (code d) = (Inr JUndefined, rt)"
    by (rule evalute_blank_code)
  from createWorkletJsFunction_of_value [OF this]
  show "createWorkletJsFunction ev d rt = (Inr (fst (makeNoop rt)), snd (makeNoop rt))"
    by simp
qed


theorem createWorkletJsFunction_materialize_witness:
  "createWorkletJsFunction (evalOnly (''(function(){}'' @ [CHR 0x0A] @ '')''))
      (exampleWorklet ''function(){}'' True None) (exampleRuntime [] [])
     = (Inr (Obj 0), exampleRuntime [] [])
   \<and> (\<exists>f rt'. createWorkletJsFunction (evalOnly ''other'')
                   (exampleWorklet ''function(){}'' True None) (exampleRuntime [] [])
                 = (Inr f, rt')
        \<and> (f, rt') = makeNoop (exampleRuntime [] [])
        \<and> (\<forall>bhv this args. callWithThis bhv rt' f this args = (Inr JUndefined, rt')))"
  using createWorkletJsFunction_materialize
          [of "evalOnly (''(function(){}'' @ [CHR 0x0A] @ '')'')"
              "exampleWorklet ''function(){}'' True None" "exampleRuntime [] []"
              "Inr (JObject (Obj 0))" "exampleRuntime [] []"]
        createWorkletJsFunction_materialize
          [of "evalOnly ''other''"
              "exampleWorklet ''function(){}'' True None" "exampleRuntime [] []"
              "Inl (JSError ''SyntaxError'')" "exampleRuntime [] []"]
  by (simp add: evalOnly_def exampleWorklet_def isCodeEmpty_def isspace_def example_eval)

subsection \<open>JsiWorklet::call, branch by branch\<close>









subsection \<open>The ambient this of the Legacy encoding\<close>




subsection \<open>The closure under both names\<close>




text \<open>
  Bodies that return what they read under either name, in both encodings, with and without
  a receiver from the caller.
\<close>

lemma closure_visible_examples:
  "fst (JsiWorklet_call unwrapValue (readThis ''_closure'')
          (exampleWorklet ''function(){}'' True (Some (JNumber 42))) (Obj 0)
          (exampleRuntime [] []) JUndefined []) = Inr (JNumber 42)"
  "fst (JsiWorklet_call unwrapValue (readThis ''__closure'')
          (exampleWorklet ''function(){}'' True (Some (JNumber 42))) (Obj 0)
          (exampleRuntime [] []) (JObject (Obj 1)) []) = Inr (JNumber 42)"
  "fst (JsiWorklet_call unwrapValue (readJsThis ''_closure'')
          (exampleWorklet ''function(){}'' False (Some (JNumber 42))) (Obj 0)
          (exampleRuntime [] []) JUndefined []) = Inr (JNumber 42)"
  "fst (JsiWorklet_call unwrapValue (readJsThis ''__closure'')
          (exampleWorklet ''function(){}'' False (Some (JNumber 42))) (Obj 0)
          (exampleRuntime [] []) (JObject (Obj 1)) []) = Inr (JNumber 42)"
  by (simp_all add: JsiWorklet_call_def exampleWorklet_def unwrapValue_def readThis_def
        readJsThis_def callWithThis_def new_Object_def setProperty_def getProperty_def
        exampleRuntime_def emptyObject_def isUndefined_def isNull_def isObject_def prop_names
        JsThisWrapper_ctor_def JsThisWrapper_dtor_def Let_def)

subsection \<open>The caller's object in the Modern encoding\<close>





subsection \<open>WorkletInvoker::call and exceptions\<close>

text \<open>
  In \<^verbatim>\<open>cpp/WKTJsiWorklet.h\<close> the invoker never raises: materialization does not, and whatever
  \<^verbatim>\<open>JsiWorklet::call\<close> throws is caught and becomes undefined.
\<close>

lemma WorkletInvoker_call_never_raises:
  "\<exists>v self' rt'.
     WorkletInvoker_call getCurrent ev unwrap bhv self rt thisValue args = (Inr v, self', rt')"
proof (cases "workletFunction self")
  case None
  obtain f rt1 where c: "createWorkletJsFunction ev (worklet self) rt = (Inr f, rt1)"
    using createWorkletJsFunction_never_raises by blast
  obtain r s where j: "JsiWorklet_call unwrap bhv (worklet self) f rt1 thisValue args = (r, s)"
    by (cases "JsiWorklet_call unwrap bhv (worklet self) f rt1 thisValue args") blast
  show ?thesis
  proof (cases r)
    case (Inl e)
    with None c j show ?thesis by (cases e) (simp_all add: WorkletInvoker_call_def)
  next
    case (Inr v)
    with None c j show ?thesis by (simp add: WorkletInvoker_call_def)
  qed
next
  case (Some f)
  obtain r s where j: "JsiWorklet_call unwrap bhv (worklet self) f rt thisValue args = (r, s)"
    by (cases "JsiWorklet_call unwrap bhv (worklet self) f rt thisValue args") blast
  show ?thesis
  proof (cases r)
    case (Inl e)
    with Some j show ?thesis by (cases e) (simp_all add: WorkletInvoker_call_def)
  next
    case (Inr v)
    with Some j show ?thesis by (simp add: WorkletInvoker_call_def)
  qed
qed

lemma WorkletInvoker_call_catches:
  assumes "workletFunction self = Some f"
    and "JsiWorklet_call unwrap bhv (worklet self) f rt thisValue args = (Inl e, rt')"
  shows "WorkletInvoker_call getCurrent ev unwrap bhv self rt thisValue args
           = (Inr JUndefined, self, rt')"
  using assms by (cases e) (simp_all add: WorkletInvoker_call_def)

lemma WorkletInvoker_call_first_catches:
  assumes "workletFunction self = None"
    and "createWorkletJsFunction ev (worklet self) rt = (Inr f, rt1)"
    and "JsiWorklet_call unwrap bhv (worklet self) f rt1 thisValue args = (Inl e, rt')"
  shows "WorkletInvoker_call getCurrent ev unwrap bhv self rt thisValue args
           = (Inr JUndefined,
              self\<lparr>workletFunction := Some f, owningContext := getCurrent rt1\<rparr>, rt')"
  using assms by (cases e) (simp_all add: WorkletInvoker_call_def)

text \<open>
  C1. The claim is that \<^verbatim>\<open>WorkletInvoker::call\<close> never lets an exception through and returns
  undefined when the worklet raises. The \<^verbatim>\<open>call\<close> of the second copy of the header has no
  \<^verbatim>\<open>try\<close>: for a worklet body that throws, the error reaches the caller. On the same input
  the \<^verbatim>\<open>call\<close> of \<^verbatim>\<open>cpp/WKTJsiWorklet.h\<close> returns undefined.
\<close>

theorem WorkletInvoker_call2_propagates:
  "fst (WorkletInvoker_call2 (evalOnly (''(function(){throw 1}'' @ [CHR 0x0A] @ '')''))
          unwrapValue (throwError ''boom'')
          \<lparr>workletFunction2 = (\<lambda>_. None),
           worklet2 = exampleWorklet ''function(){throw 1}'' True None\<rparr>
          (exampleRuntime [] []) JUndefined [])
     = Inl (JSError ''boom'')
   \<and> fst (WorkletInvoker_call (\<lambda>_. None :: unit option)
          (evalOnly (''(function(){throw 1}'' @ [CHR 0x0A] @ '')''))
          unwrapValue (throwError ''boom'')
          \<lparr>owningContext = None, worklet = exampleWorklet ''function(){throw 1}'' True None,
           workletFunction = None\<rparr>
          (exampleRuntime [] []) JUndefined [])
     = Inr JUndefined"
  by (simp add: WorkletInvoker_call2_def WorkletInvoker_call_def createWorkletJsFunction_def
        evaluteJavascriptInWorkletRuntime_def JsiWorklet_call_def evalOnly_def unwrapValue_def
        throwError_def exampleWorklet_def callWithThis_def new_Object_def setProperty_def
        isspace_def example_eval Let_def)

end
